theory Spec2Isabelle
  imports Complex_Main "HOL-Library.Word" "HOL-Library.AList"
begin

unbundle bit_operations_syntax

section \<open>Credential vault (server/email.ts, encrypt and decrypt)\<close>

text \<open>
  A JavaScript string is represented by the bytes of its UTF-8 encoding, one \<open>char\<close> per
  byte: this is what \<^verbatim>\<open>Buffer.from(s)\<close> and \<^verbatim>\<open>cipher.update(s)\<close> read and what
  \<^verbatim>\<open>buf.toString()\<close> writes for a well-formed text. A \<^verbatim>\<open>Buffer\<close> is a list of bytes.
\<close>

type_synonym byte = "8 word"

definition Buffer_from :: "string \<Rightarrow> byte list" where
  "Buffer_from s = map of_char s"

definition toString :: "byte list \<Rightarrow> string" where
  "toString bs = map (\<lambda>b. char_of (unat b)) bs"

subsection \<open>Hexadecimal encoding of buffers\<close>

definition hex_digit :: "nat \<Rightarrow> char" where
  "hex_digit n = ''0123456789abcdef'' ! n"

definition byte_to_hex :: "byte \<Rightarrow> string" where
  "byte_to_hex b = [hex_digit (unat b div 16), hex_digit (unat b mod 16)]"

text \<open>\<^verbatim>\<open>buf.toString('hex')\<close>\<close>

definition toString_hex :: "byte list \<Rightarrow> string" where
  "toString_hex bs = concat (map byte_to_hex bs)"

definition unhex :: "char \<Rightarrow> nat option" where
  "unhex c =
     (let n = (of_char c :: nat) in
      if 48 \<le> n \<and> n \<le> 57 then Some (n - 48)
      else if 97 \<le> n \<and> n \<le> 102 then Some (n - 87)
      else if 65 \<le> n \<and> n \<le> 70 then Some (n - 55)
      else None)"

text \<open>
  \<^verbatim>\<open>Buffer.from(s, 'hex')\<close> decodes pairs of hexadecimal digits and stops, without an
  error, at the first pair that is not hexadecimal; a trailing single character is dropped.
\<close>

fun Buffer_from_hex :: "string \<Rightarrow> byte list" where
  "Buffer_from_hex (a # b # rest) =
     (case (unhex a, unhex b) of
        (Some x, Some y) \<Rightarrow> of_nat (16 * x + y) # Buffer_from_hex rest
      | _ \<Rightarrow> [])"
| "Buffer_from_hex _ = []"

subsection \<open>\<^verbatim>\<open>String.prototype.split\<close> and \<^verbatim>\<open>Array.prototype.join\<close> on one character\<close>

fun split :: "char \<Rightarrow> string \<Rightarrow> string list" where
  "split sep [] = [[]]"
| "split sep (c # cs) =
     (if c = sep then [] # split sep cs
      else (case split sep cs of
              p # ps \<Rightarrow> (c # p) # ps
            | [] \<Rightarrow> [[c]]))"

fun join :: "char \<Rightarrow> string list \<Rightarrow> string" where
  "join sep [] = []"
| "join sep [p] = p"
| "join sep (p # q # ps) = p @ sep # join sep (q # ps)"

subsection \<open>AES-256, the block cipher behind \<^verbatim>\<open>'aes-256-cbc'\<close>\<close>

text \<open>
  The cipher is code of the runtime's crypto library. It is modelled as FIPS 197 specifies
  it, for a key of 32 bytes (14 rounds) and a state of 16 bytes held column by column.
\<close>

definition SBOX :: "byte list list" where
  "SBOX =
     [[0x63, 0x7c, 0x77, 0x7b, 0xf2, 0x6b, 0x6f, 0xc5, 0x30, 0x01, 0x67, 0x2b, 0xfe, 0xd7, 0xab, 0x76],
      [0xca, 0x82, 0xc9, 0x7d, 0xfa, 0x59, 0x47, 0xf0, 0xad, 0xd4, 0xa2, 0xaf, 0x9c, 0xa4, 0x72, 0xc0],
      [0xb7, 0xfd, 0x93, 0x26, 0x36, 0x3f, 0xf7, 0xcc, 0x34, 0xa5, 0xe5, 0xf1, 0x71, 0xd8, 0x31, 0x15],
      [0x04, 0xc7, 0x23, 0xc3, 0x18, 0x96, 0x05, 0x9a, 0x07, 0x12, 0x80, 0xe2, 0xeb, 0x27, 0xb2, 0x75],
      [0x09, 0x83, 0x2c, 0x1a, 0x1b, 0x6e, 0x5a, 0xa0, 0x52, 0x3b, 0xd6, 0xb3, 0x29, 0xe3, 0x2f, 0x84],
      [0x53, 0xd1, 0x00, 0xed, 0x20, 0xfc, 0xb1, 0x5b, 0x6a, 0xcb, 0xbe, 0x39, 0x4a, 0x4c, 0x58, 0xcf],
      [0xd0, 0xef, 0xaa, 0xfb, 0x43, 0x4d, 0x33, 0x85, 0x45, 0xf9, 0x02, 0x7f, 0x50, 0x3c, 0x9f, 0xa8],
      [0x51, 0xa3, 0x40, 0x8f, 0x92, 0x9d, 0x38, 0xf5, 0xbc, 0xb6, 0xda, 0x21, 0x10, 0xff, 0xf3, 0xd2],
      [0xcd, 0x0c, 0x13, 0xec, 0x5f, 0x97, 0x44, 0x17, 0xc4, 0xa7, 0x7e, 0x3d, 0x64, 0x5d, 0x19, 0x73],
      [0x60, 0x81, 0x4f, 0xdc, 0x22, 0x2a, 0x90, 0x88, 0x46, 0xee, 0xb8, 0x14, 0xde, 0x5e, 0x0b, 0xdb],
      [0xe0, 0x32, 0x3a, 0x0a, 0x49, 0x06, 0x24, 0x5c, 0xc2, 0xd3, 0xac, 0x62, 0x91, 0x95, 0xe4, 0x79],
      [0xe7, 0xc8, 0x37, 0x6d, 0x8d, 0xd5, 0x4e, 0xa9, 0x6c, 0x56, 0xf4, 0xea, 0x65, 0x7a, 0xae, 0x08],
      [0xba, 0x78, 0x25, 0x2e, 0x1c, 0xa6, 0xb4, 0xc6, 0xe8, 0xdd, 0x74, 0x1f, 0x4b, 0xbd, 0x8b, 0x8a],
      [0x70, 0x3e, 0xb5, 0x66, 0x48, 0x03, 0xf6, 0x0e, 0x61, 0x35, 0x57, 0xb9, 0x86, 0xc1, 0x1d, 0x9e],
      [0xe1, 0xf8, 0x98, 0x11, 0x69, 0xd9, 0x8e, 0x94, 0x9b, 0x1e, 0x87, 0xe9, 0xce, 0x55, 0x28, 0xdf],
      [0x8c, 0xa1, 0x89, 0x0d, 0xbf, 0xe6, 0x42, 0x68, 0x41, 0x99, 0x2d, 0x0f, 0xb0, 0x54, 0xbb, 0x16]]"

definition INV_SBOX :: "byte list list" where
  "INV_SBOX =
     [[0x52, 0x09, 0x6a, 0xd5, 0x30, 0x36, 0xa5, 0x38, 0xbf, 0x40, 0xa3, 0x9e, 0x81, 0xf3, 0xd7, 0xfb],
      [0x7c, 0xe3, 0x39, 0x82, 0x9b, 0x2f, 0xff, 0x87, 0x34, 0x8e, 0x43, 0x44, 0xc4, 0xde, 0xe9, 0xcb],
      [0x54, 0x7b, 0x94, 0x32, 0xa6, 0xc2, 0x23, 0x3d, 0xee, 0x4c, 0x95, 0x0b, 0x42, 0xfa, 0xc3, 0x4e],
      [0x08, 0x2e, 0xa1, 0x66, 0x28, 0xd9, 0x24, 0xb2, 0x76, 0x5b, 0xa2, 0x49, 0x6d, 0x8b, 0xd1, 0x25],
      [0x72, 0xf8, 0xf6, 0x64, 0x86, 0x68, 0x98, 0x16, 0xd4, 0xa4, 0x5c, 0xcc, 0x5d, 0x65, 0xb6, 0x92],
      [0x6c, 0x70, 0x48, 0x50, 0xfd, 0xed, 0xb9, 0xda, 0x5e, 0x15, 0x46, 0x57, 0xa7, 0x8d, 0x9d, 0x84],
      [0x90, 0xd8, 0xab, 0x00, 0x8c, 0xbc, 0xd3, 0x0a, 0xf7, 0xe4, 0x58, 0x05, 0xb8, 0xb3, 0x45, 0x06],
      [0xd0, 0x2c, 0x1e, 0x8f, 0xca, 0x3f, 0x0f, 0x02, 0xc1, 0xaf, 0xbd, 0x03, 0x01, 0x13, 0x8a, 0x6b],
      [0x3a, 0x91, 0x11, 0x41, 0x4f, 0x67, 0xdc, 0xea, 0x97, 0xf2, 0xcf, 0xce, 0xf0, 0xb4, 0xe6, 0x73],
      [0x96, 0xac, 0x74, 0x22, 0xe7, 0xad, 0x35, 0x85, 0xe2, 0xf9, 0x37, 0xe8, 0x1c, 0x75, 0xdf, 0x6e],
      [0x47, 0xf1, 0x1a, 0x71, 0x1d, 0x29, 0xc5, 0x89, 0x6f, 0xb7, 0x62, 0x0e, 0xaa, 0x18, 0xbe, 0x1b],
      [0xfc, 0x56, 0x3e, 0x4b, 0xc6, 0xd2, 0x79, 0x20, 0x9a, 0xdb, 0xc0, 0xfe, 0x78, 0xcd, 0x5a, 0xf4],
      [0x1f, 0xdd, 0xa8, 0x33, 0x88, 0x07, 0xc7, 0x31, 0xb1, 0x12, 0x10, 0x59, 0x27, 0x80, 0xec, 0x5f],
      [0x60, 0x51, 0x7f, 0xa9, 0x19, 0xb5, 0x4a, 0x0d, 0x2d, 0xe5, 0x7a, 0x9f, 0x93, 0xc9, 0x9c, 0xef],
      [0xa0, 0xe0, 0x3b, 0x4d, 0xae, 0x2a, 0xf5, 0xb0, 0xc8, 0xeb, 0xbb, 0x3c, 0x83, 0x53, 0x99, 0x61],
      [0x17, 0x2b, 0x04, 0x7e, 0xba, 0x77, 0xd6, 0x26, 0xe1, 0x69, 0x14, 0x63, 0x55, 0x21, 0x0c, 0x7d]]"

definition sub_byte :: "byte \<Rightarrow> byte" where
  "sub_byte b = SBOX ! (unat b div 16) ! (unat b mod 16)"

definition inv_sub_byte :: "byte \<Rightarrow> byte" where
  "inv_sub_byte b = INV_SBOX ! (unat b div 16) ! (unat b mod 16)"

definition sub_bytes :: "byte list \<Rightarrow> byte list" where
  "sub_bytes s = map sub_byte s"

definition inv_sub_bytes :: "byte list \<Rightarrow> byte list" where
  "inv_sub_bytes s = map inv_sub_byte s"

definition shift_rows :: "byte list \<Rightarrow> byte list" where
  "shift_rows s = map (\<lambda>i. s ! i) [0, 5, 10, 15, 4, 9, 14, 3, 8, 13, 2, 7, 12, 1, 6, 11]"

definition inv_shift_rows :: "byte list \<Rightarrow> byte list" where
  "inv_shift_rows s = map (\<lambda>i. s ! i) [0, 13, 10, 7, 4, 1, 14, 11, 8, 5, 2, 15, 12, 9, 6, 3]"

text \<open>Multiplication by \<open>x\<close> in the field of 256 elements, and by the constants of the two
  column mixings.\<close>

definition xtime :: "byte \<Rightarrow> byte" where
  "xtime b = (if bit b 7 then push_bit 1 (b AND 0x7f) XOR 0x1b else push_bit 1 b)"

definition mul3 :: "byte \<Rightarrow> byte" where
  "mul3 b = xtime b XOR b"

definition mul9 :: "byte \<Rightarrow> byte" where
  "mul9 b = xtime (xtime (xtime b)) XOR b"

definition mul11 :: "byte \<Rightarrow> byte" where
  "mul11 b = xtime (xtime (xtime b)) XOR xtime b XOR b"

definition mul13 :: "byte \<Rightarrow> byte" where
  "mul13 b = xtime (xtime (xtime b)) XOR xtime (xtime b) XOR b"

definition mul14 :: "byte \<Rightarrow> byte" where
  "mul14 b = xtime (xtime (xtime b)) XOR xtime (xtime b) XOR xtime b"

fun mix_column :: "byte list \<Rightarrow> byte list" where
  "mix_column [a0, a1, a2, a3] =
     [xtime a0 XOR mul3 a1 XOR a2 XOR a3,
      a0 XOR xtime a1 XOR mul3 a2 XOR a3,
      a0 XOR a1 XOR xtime a2 XOR mul3 a3,
      mul3 a0 XOR a1 XOR a2 XOR xtime a3]"
| "mix_column col = col"

fun inv_mix_column :: "byte list \<Rightarrow> byte list" where
  "inv_mix_column [a0, a1, a2, a3] =
     [mul14 a0 XOR mul11 a1 XOR mul13 a2 XOR mul9 a3,
      mul9 a0 XOR mul14 a1 XOR mul11 a2 XOR mul13 a3,
      mul13 a0 XOR mul9 a1 XOR mul14 a2 XOR mul11 a3,
      mul11 a0 XOR mul13 a1 XOR mul9 a2 XOR mul14 a3]"
| "inv_mix_column col = col"

fun columns :: "byte list \<Rightarrow> byte list list" where
  "columns (a # b # c # d # rest) = [a, b, c, d] # columns rest"
| "columns _ = []"

definition mix_columns :: "byte list \<Rightarrow> byte list" where
  "mix_columns s = concat (map mix_column (columns s))"

definition inv_mix_columns :: "byte list \<Rightarrow> byte list" where
  "inv_mix_columns s = concat (map inv_mix_column (columns s))"

definition xor_bytes :: "byte list \<Rightarrow> byte list \<Rightarrow> byte list" where
  "xor_bytes xs ys = map2 (XOR) xs ys"

definition add_round_key :: "byte list \<Rightarrow> byte list \<Rightarrow> byte list" where
  "add_round_key s k = xor_bytes s k"

text \<open>
  Key expansion for a key of eight words: each step derives the next eight words from the
  last eight, and every four words make one round key; fifteen round keys are used.
\<close>

definition rot_word :: "byte list \<Rightarrow> byte list" where
  "rot_word w = tl w @ [hd w]"

fun next_key :: "byte \<Rightarrow> byte list list \<Rightarrow> byte list list" where
  "next_key rc [w0, w1, w2, w3, w4, w5, w6, w7] =
     (let n0 = xor_bytes w0 (xor_bytes (sub_bytes (rot_word w7)) [rc, 0, 0, 0]);
          n1 = xor_bytes w1 n0;
          n2 = xor_bytes w2 n1;
          n3 = xor_bytes w3 n2;
          n4 = xor_bytes w4 (sub_bytes n3);
          n5 = xor_bytes w5 n4;
          n6 = xor_bytes w6 n5;
          n7 = xor_bytes w7 n6
      in [n0, n1, n2, n3, n4, n5, n6, n7])"
| "next_key rc ws = ws"

fun expand :: "byte list \<Rightarrow> byte list list \<Rightarrow> byte list list" where
  "expand [] ws = []"
| "expand (rc # rcs) ws = (let ns = next_key rc ws in ns @ expand rcs ns)"

fun round_keys :: "byte list list \<Rightarrow> byte list list" where
  "round_keys (w0 # w1 # w2 # w3 # rest) = (w0 @ w1 @ w2 @ w3) # round_keys rest"
| "round_keys _ = []"

definition key_expansion :: "byte list \<Rightarrow> byte list list" where
  "key_expansion key =
     (let ws = columns key
      in butlast (round_keys (ws @ expand [0x01, 0x02, 0x04, 0x08, 0x10, 0x20, 0x40] ws)))"

definition aes_round :: "byte list \<Rightarrow> byte list \<Rightarrow> byte list" where
  "aes_round k s = add_round_key (mix_columns (shift_rows (sub_bytes s))) k"

definition inv_aes_round :: "byte list \<Rightarrow> byte list \<Rightarrow> byte list" where
  "inv_aes_round k s = inv_mix_columns (add_round_key (inv_sub_bytes (inv_shift_rows s)) k)"

fun aes_rounds :: "byte list list \<Rightarrow> byte list \<Rightarrow> byte list" where
  "aes_rounds [] s = s"
| "aes_rounds (k # ks) s = aes_rounds ks (aes_round k s)"

fun inv_aes_rounds :: "byte list list \<Rightarrow> byte list \<Rightarrow> byte list" where
  "inv_aes_rounds [] s = s"
| "inv_aes_rounds (k # ks) s = inv_aes_rounds ks (inv_aes_round k s)"

definition aes_cipher :: "byte list list \<Rightarrow> byte list \<Rightarrow> byte list" where
  "aes_cipher rk b =
     (let s = aes_rounds (butlast (tl rk)) (add_round_key b (hd rk))
      in add_round_key (shift_rows (sub_bytes s)) (last rk))"

definition aes_inv_cipher :: "byte list list \<Rightarrow> byte list \<Rightarrow> byte list" where
  "aes_inv_cipher rk b =
     (let s = inv_aes_rounds (rev (butlast (tl rk))) (add_round_key b (last rk))
      in add_round_key (inv_sub_bytes (inv_shift_rows s)) (hd rk))"

definition encrypt_block :: "byte list \<Rightarrow> byte list \<Rightarrow> byte list" where
  "encrypt_block key b = aes_cipher (key_expansion key) b"

definition decrypt_block :: "byte list \<Rightarrow> byte list \<Rightarrow> byte list" where
  "decrypt_block key b = aes_inv_cipher (key_expansion key) b"

subsection \<open>The block cipher in CBC mode with PKCS#7 padding\<close>

definition block_size :: nat where
  "block_size = 16"

definition key_length :: nat where
  "key_length = 32"

definition IV_LENGTH :: nat where
  "IV_LENGTH = 16"

datatype crypto_error =
    InvalidIV
  | InvalidKeyLength
  | WrongFinalBlockLength
  | BadDecrypt

text \<open>
  \<^verbatim>\<open>createCipheriv\<close> and \<^verbatim>\<open>createDecipheriv\<close> check the length of the initialization vector,
  then the length of the key, and throw on a mismatch. The context they return holds the
  key and the vector.
\<close>

definition createCipheriv ::
    "byte list \<Rightarrow> byte list \<Rightarrow> crypto_error + (byte list \<times> byte list)" where
  "createCipheriv key iv =
     (if length iv \<noteq> block_size then Inl InvalidIV
      else if length key \<noteq> key_length then Inl InvalidKeyLength
      else Inr (key, iv))"

definition pkcs7_pad :: "byte list \<Rightarrow> byte list" where
  "pkcs7_pad bs =
     (let n = block_size - length bs mod block_size in bs @ replicate n (of_nat n))"

fun cbc_encrypt_blocks ::
    "byte list \<Rightarrow> byte list \<Rightarrow> nat \<Rightarrow> byte list \<Rightarrow> byte list" where
  "cbc_encrypt_blocks key prev 0 bs = []"
| "cbc_encrypt_blocks key prev (Suc n) bs =
     (let c = encrypt_block key (xor_bytes (take block_size bs) prev)
      in c @ cbc_encrypt_blocks key c n (drop block_size bs))"

fun cbc_decrypt_blocks ::
    "byte list \<Rightarrow> byte list \<Rightarrow> nat \<Rightarrow> byte list \<Rightarrow> byte list" where
  "cbc_decrypt_blocks key prev 0 bs = []"
| "cbc_decrypt_blocks key prev (Suc n) bs =
     (let c = take block_size bs
      in xor_bytes (decrypt_block key c) prev
         @ cbc_decrypt_blocks key c n (drop block_size bs))"

text \<open>
  The bytes of \<^verbatim>\<open>Buffer.concat([cipher.update(data), cipher.final()])\<close>: the padded data,
  block by block, each block combined with the previous ciphertext block.
\<close>

definition cipher_update_final ::
    "byte list \<times> byte list \<Rightarrow> byte list \<Rightarrow> byte list" where
  "cipher_update_final ctx data =
     (let padded = pkcs7_pad data
      in cbc_encrypt_blocks (fst ctx) (snd ctx) (length padded div block_size) padded)"

text \<open>
  The last block of the decrypted data must end in \<open>n\<close> bytes of value \<open>n\<close>, with
  \<open>1 \<le> n \<le> 16\<close>; \<^verbatim>\<open>decipher.final()\<close> removes them and throws otherwise.
\<close>

definition pkcs7_unpad :: "byte list \<Rightarrow> crypto_error + byte list" where
  "pkcs7_unpad bs =
     (let n = unat (last bs) in
      if n = 0 \<or> block_size < n then Inl BadDecrypt
      else if drop (length bs - n) bs \<noteq> replicate n (last bs) then Inl BadDecrypt
      else Inr (take (length bs - n) bs))"

text \<open>
  The bytes of \<^verbatim>\<open>Buffer.concat([decipher.update(data), decipher.final()])\<close>;
  \<^verbatim>\<open>final\<close> throws when the data is empty or not a whole number of blocks.
\<close>

definition decipher_update_final ::
    "byte list \<times> byte list \<Rightarrow> byte list \<Rightarrow> crypto_error + byte list" where
  "decipher_update_final ctx data =
     (if data = [] \<or> length data mod block_size \<noteq> 0 then Inl WrongFinalBlockLength
      else pkcs7_unpad
             (cbc_decrypt_blocks (fst ctx) (snd ctx) (length data div block_size) data))"

subsection \<open>encrypt and decrypt\<close>

definition default_key :: string where
  "default_key = ''default-encryption-key-for-development-only''"

text \<open>
  \<^verbatim>\<open>process.env.ENCRYPTION_KEY || '...'\<close>: an unset or empty variable gives the default.
\<close>

definition ENCRYPTION_KEY :: "string option \<Rightarrow> string" where
  "ENCRYPTION_KEY env_var =
     (case env_var of
        None \<Rightarrow> default_key
      | Some k \<Rightarrow> if k = [] then default_key else k)"

text \<open>
  \<open>iv\<close> is the value of \<^verbatim>\<open>crypto.randomBytes(IV_LENGTH)\<close>, an input of the model.
\<close>

definition encrypt :: "string \<Rightarrow> byte list \<Rightarrow> string \<Rightarrow> crypto_error + string" where
  "encrypt KEY iv text =
     (case createCipheriv (Buffer_from KEY) iv of
        Inl e \<Rightarrow> Inl e
      | Inr cipher \<Rightarrow>
          Inr (toString_hex iv @ CHR '':'' #
               toString_hex (cipher_update_final cipher (Buffer_from text))))"

definition decrypt :: "string \<Rightarrow> string \<Rightarrow> crypto_error + string" where
  "decrypt KEY text =
     (let textParts = split CHR '':'' text;
          iv = Buffer_from_hex (hd textParts);
          encryptedText = Buffer_from_hex (join CHR '':'' (tl textParts))
      in case createCipheriv (Buffer_from KEY) iv of
           Inl e \<Rightarrow> Inl e
         | Inr decipher \<Rightarrow>
             (case decipher_update_final decipher encryptedText of
                Inl e \<Rightarrow> Inl e
              | Inr decrypted \<Rightarrow> Inr (toString decrypted)))"


section \<open>The data model (shared/schema.ts)\<close>

text \<open>
  A timestamp is the number of milliseconds since the epoch. A nullable column is an
  \<open>option\<close>, \<open>None\<close> standing for \<^verbatim>\<open>null\<close>. The insert types are the row types without
  the columns the store fills in, so each row type extends its insert type.
\<close>

type_synonym date = int

record InsertEmailSettings =
  s_userId :: nat
  emailProvider :: string
  s_email :: string
  credentials :: string
  s_active :: "bool option"

record EmailSettings = InsertEmailSettings +
  s_id :: nat
  s_createdAt :: date
  s_updatedAt :: date
  lastSynced :: "date option"

record InsertEmail =
  e_userId :: nat
  messageId :: string
  mail_from :: string
  mail_to :: string
  cc :: "string option"
  subject :: "string option"
  body :: string
  html :: "string option"
  e_date :: date
  isRead :: "bool option"
  needsResponse :: "bool option"
  responseGenerated :: "bool option"
  folderPath :: "string option"

record Email = InsertEmail +
  e_id :: nat
  e_createdAt :: date

record SuggestedAction =
  action :: string
  priority :: string

record InsertEmailResponse =
  r_emailId :: nat
  r_userId :: nat
  draftResponse :: string
  suggestedActions :: "SuggestedAction list"
  status :: string

record EmailResponse = InsertEmailResponse +
  r_id :: nat
  r_createdAt :: date
  r_updatedAt :: date
  sentAt :: "date option"

record Context =
  c_id :: nat
  c_userId :: nat
  c_name :: string
  c_type :: string
  content :: string
  fileSize :: "nat option"
  pageCount :: "nat option"
  c_createdAt :: date
  c_active :: "bool option"

text \<open>A nullable boolean in a condition: \<^verbatim>\<open>null\<close> and \<^verbatim>\<open>false\<close> are both falsy.\<close>

definition truthy :: "bool option \<Rightarrow> bool" where
  "truthy b = (b = Some True)"

section \<open>The in-memory store (server/storage.ts, class MemStorage)\<close>

text \<open>
  A JavaScript \<^verbatim>\<open>Map\<close> keeps its entries in insertion order: it is an association list,
  \<^verbatim>\<open>set\<close> replacing the value of a key in place or appending a new entry. Of the maps
  of the class, those of the email pipeline are modelled; no function below touches the
  others.
\<close>

type_synonym 'a js_map = "(nat \<times> 'a) list"

definition Map_get :: "'a js_map \<Rightarrow> nat \<Rightarrow> 'a option" where
  "Map_get m k = map_of m k"

definition Map_set :: "'a js_map \<Rightarrow> nat \<Rightarrow> 'a \<Rightarrow> 'a js_map" where
  "Map_set m k v = AList.update k v m"

definition Map_values :: "'a js_map \<Rightarrow> 'a list" where
  "Map_values m = map snd m"

record MemStorage =
  contexts :: "Context js_map"
  emailSettings :: "EmailSettings js_map"
  emails :: "Email js_map"
  emailResponses :: "EmailResponse js_map"
  emailSettingsId :: nat
  emailId :: nat
  emailResponseId :: nat

definition new_MemStorage :: MemStorage where
  "new_MemStorage =
     \<lparr>contexts = [], emailSettings = [], emails = [], emailResponses = [],
      emailSettingsId = 1, emailId = 1, emailResponseId = 1\<rparr>"

definition getContexts :: "MemStorage \<Rightarrow> nat \<Rightarrow> Context list" where
  "getContexts this userId = filter (\<lambda>context. c_userId context = userId) (Map_values (contexts this))"

definition getEmailSettings :: "MemStorage \<Rightarrow> nat \<Rightarrow> EmailSettings option" where
  "getEmailSettings this userId =
     find (\<lambda>settings. s_userId settings = userId) (Map_values (emailSettings this))"

definition createEmailSettings ::
    "MemStorage \<Rightarrow> InsertEmailSettings \<Rightarrow> date \<Rightarrow> MemStorage \<times> EmailSettings" where
  "createEmailSettings this settings now =
     (let id' = emailSettingsId this;
          row = InsertEmailSettings.extend settings (EmailSettings.fields id' now now None)
      in (this\<lparr>emailSettingsId := id' + 1,
               emailSettings := Map_set (emailSettings this) id' row\<rparr>,
          row))"

text \<open>
  A \<^verbatim>\<open>Partial\<close> of a row type, spread over the existing row, is a function that
  updates the row.
\<close>

definition updateEmailSettings ::
    "MemStorage \<Rightarrow> nat \<Rightarrow> (EmailSettings \<Rightarrow> EmailSettings) \<Rightarrow> date
       \<Rightarrow> MemStorage \<times> EmailSettings option" where
  "updateEmailSettings this userId updatedSettings now =
     (case getEmailSettings this userId of
        None \<Rightarrow> (this, None)
      | Some existingSettings \<Rightarrow>
          (let updated = (updatedSettings existingSettings)\<lparr>s_updatedAt := now\<rparr>
           in (this\<lparr>emailSettings :=
                        Map_set (emailSettings this) (s_id existingSettings) updated\<rparr>,
               Some updated)))"

definition getEmail :: "MemStorage \<Rightarrow> nat \<Rightarrow> Email option" where
  "getEmail this id' = Map_get (emails this) id'"

definition getEmailByMessageId :: "MemStorage \<Rightarrow> string \<Rightarrow> Email option" where
  "getEmailByMessageId this mid =
     find (\<lambda>email. messageId email = mid) (Map_values (emails this))"

definition createEmail :: "MemStorage \<Rightarrow> InsertEmail \<Rightarrow> date \<Rightarrow> MemStorage \<times> Email" where
  "createEmail this insertEmail now =
     (let id' = emailId this;
          email = InsertEmail.extend insertEmail (Email.fields id' now)
      in (this\<lparr>emailId := id' + 1, emails := Map_set (emails this) id' email\<rparr>, email))"

definition updateEmail ::
    "MemStorage \<Rightarrow> nat \<Rightarrow> (Email \<Rightarrow> Email) \<Rightarrow> MemStorage \<times> Email option" where
  "updateEmail this id' updatedEmail =
     (case Map_get (emails this) id' of
        None \<Rightarrow> (this, None)
      | Some email \<Rightarrow>
          (let updated = updatedEmail email
           in (this\<lparr>emails := Map_set (emails this) id' updated\<rparr>, Some updated)))"

definition getEmailResponse :: "MemStorage \<Rightarrow> nat \<Rightarrow> EmailResponse option" where
  "getEmailResponse this id' = Map_get (emailResponses this) id'"

definition createEmailResponse ::
    "MemStorage \<Rightarrow> InsertEmailResponse \<Rightarrow> date \<Rightarrow> MemStorage \<times> EmailResponse" where
  "createEmailResponse this insertResponse now =
     (let id' = emailResponseId this;
          response = InsertEmailResponse.extend insertResponse
                       (EmailResponse.fields id' now now None)
      in (this\<lparr>emailResponseId := id' + 1,
               emailResponses := Map_set (emailResponses this) id' response\<rparr>,
          response))"

definition updateEmailResponse ::
    "MemStorage \<Rightarrow> nat \<Rightarrow> (EmailResponse \<Rightarrow> EmailResponse) \<Rightarrow> date
       \<Rightarrow> MemStorage \<times> EmailResponse option" where
  "updateEmailResponse this id' updatedResponse now =
     (case Map_get (emailResponses this) id' of
        None \<Rightarrow> (this, None)
      | Some response \<Rightarrow>
          (let updated = (updatedResponse response)\<lparr>r_updatedAt := now\<rparr>
           in (this\<lparr>emailResponses := Map_set (emailResponses this) id' updated\<rparr>,
               Some updated)))"

section \<open>The relational store (class DatabaseStorage), inserting an email\<close>

text \<open>
  The table of emails declares its \<^verbatim>\<open>message_id\<close> column unique, so the database
  rejects the insertion of a second row with a stored message id; the identifier is a
  serial. The table is the list of its rows and the next value of the serial.
\<close>

datatype db_error = UniqueViolation

definition db_createEmail ::
    "Email list \<times> nat \<Rightarrow> InsertEmail \<Rightarrow> date \<Rightarrow> (Email list \<times> nat) \<times> (db_error + Email)" where
  "db_createEmail table insertEmail now =
     (let id' = snd table;
          email = InsertEmail.extend insertEmail (Email.fields id' now)
      in if messageId insertEmail \<in> messageId ` set (fst table)
         then ((fst table, id' + 1), Inl UniqueViolation)
         else ((fst table @ [email], id' + 1), Inr email))"

section \<open>The outside world of the email pipeline\<close>

text \<open>
  The mail servers, the parser of messages, the completion endpoint, the JSON parser and
  the environment are outside the program. Each is a function of the record below, from
  the arguments of the call to what the call returns or throws; the properties proved
  hold for every such record. The clock is read once per request: \<open>now\<close> is the value of
  every \<^verbatim>\<open>new Date()\<close> and \<^verbatim>\<open>Date.now()\<close> of the request.
\<close>

datatype exn =
    CryptoError crypto_error
  | SyntaxError
  | Error string

record Credentials =
  username :: "string option"
  password :: string
  host :: string
  port :: nat
  tls :: "bool option"
  smtpHost :: "string option"
  smtpPort :: "nat option"
  smtpSecure :: "bool option"

record ImapConfig =
  imap_user :: string
  imap_password :: string
  imap_host :: string
  imap_port :: nat
  imap_tls :: bool

record TransportConfig =
  smtp_host :: "string option"
  smtp_port :: "nat option"
  smtp_secure :: bool
  auth_user :: string
  auth_pass :: string

record Mail =
  m_from :: string
  m_to :: string
  m_subject :: string
  m_text :: string
  m_references :: string
  m_inReplyTo :: string

text \<open>What \<^verbatim>\<open>simpleParser\<close> hands to its callback: every field may be absent.\<close>

record ParsedMail =
  p_messageId :: "string option"
  p_from :: "string option"
  p_to :: "string option"
  p_cc :: "string option"
  p_subject :: "string option"
  p_date :: "date option"
  p_text :: "string option"
  p_html :: "string option"

text \<open>
  One \<^verbatim>\<open>body\<close> event of a fetched message: the section it carries and the outcome of
  parsing it, \<open>None\<close> when the parser reports an error.
\<close>

datatype body_event = Body (which: string) (parsed: "ParsedMail option")

text \<open>
  A fetched message: the body events whose parser callbacks have run when the message's
  \<^verbatim>\<open>end\<close> event fires, in the order of the callbacks, and the two numbers a callback
  would print into a made-up message id (\<^verbatim>\<open>Date.now()\<close> and \<^verbatim>\<open>Math.random()\<close>).
\<close>

record raw_message =
  bodies :: "body_event list"
  Date_now :: string
  Math_random :: string

text \<open>
  The reply of the completion endpoint to the question whether an email needs a response:
  the call throws, or the content of its first choice is not JSON, or it is an object with
  the two fields asked for.
\<close>

datatype needs_reply =
    NeedsCallFailed
  | NeedsNotJson
  | NeedsReply (reply_needsResponse: bool) (reply_confidence: real)

datatype draft_reply =
    DraftCallFailed
  | DraftNotJson
  | DraftReply (reply_draftResponse: string) (reply_suggestedActions: "SuggestedAction list")

record world =
  process_env_ENCRYPTION_KEY :: "string option"
  JSON_parse :: "string \<Rightarrow> Credentials option"
  imap_connect :: "ImapConfig \<Rightarrow> string option"
  imap_openBox :: "string \<Rightarrow> string + string"
  imap_search :: "date \<Rightarrow> string + nat list"
  imap_fetch :: "nat list \<Rightarrow> string + raw_message list"
  needs_completion :: "string \<Rightarrow> string \<Rightarrow> needs_reply"
  draft_completion :: "string \<Rightarrow> Email \<Rightarrow> draft_reply"
  smtp_sendMail :: "TransportConfig \<Rightarrow> Mail \<Rightarrow> string option"

text \<open>
  The state of the server: the store, the messages handed to the SMTP server and
  accepted by it, and the classification requests made to the completion endpoint (the
  subject and the body sent with each).
\<close>

record server =
  storage :: MemStorage
  outbox :: "Mail list"
  needs_requests :: "(string \<times> string) list"

section \<open>Mail transport adapter (server/email.ts)\<close>

text \<open>\<^verbatim>\<open>a || b\<close> on strings: the empty string and an absent value are falsy.\<close>

definition or_else :: "string option \<Rightarrow> string \<Rightarrow> string" where
  "or_else a b = (case a of None \<Rightarrow> b | Some s \<Rightarrow> if s = [] then b else s)"

definition startsWith :: "string \<Rightarrow> string \<Rightarrow> bool" where
  "startsWith s p = (take (length p) s = p)"

definition createImapConnection :: "world \<Rightarrow> EmailSettings \<Rightarrow> exn + unit" where
  "createImapConnection w settings =
     (case decrypt (ENCRYPTION_KEY (process_env_ENCRYPTION_KEY w)) (credentials settings) of
        Inl e \<Rightarrow> Inl (CryptoError e)
      | Inr plain \<Rightarrow>
          (case JSON_parse w plain of
             None \<Rightarrow> Inl SyntaxError
           | Some creds \<Rightarrow>
               (let imapConfig =
                      \<lparr>imap_user = or_else (username creds) (s_email settings),
                       imap_password = password creds,
                       imap_host = host creds,
                       imap_port = port creds,
                       imap_tls = True\<rparr>
                in case imap_connect w imapConfig of
                     Some err \<Rightarrow> Inl (Error err)
                   | None \<Rightarrow> Inr ())))"

definition openMailbox :: "world \<Rightarrow> string \<Rightarrow> exn + string" where
  "openMailbox w mailboxName =
     (case imap_openBox w mailboxName of
        Inl err \<Rightarrow> Inl (Error err)
      | Inr box_name \<Rightarrow> Inr box_name)"

text \<open>
  The record a message is normalised to (interface \<^verbatim>\<open>EmailData\<close>), and the object the
  callbacks fill: the header callback sets its six fields together, the text callback
  its two.
\<close>

record EmailData =
  d_messageId :: string
  d_from :: string
  d_to :: string
  d_cc :: "string option"
  d_subject :: "string option"
  d_text :: string
  d_html :: "string option"
  d_date :: date
  d_isRead :: "bool option"
  d_folder :: "string option"

record header_fields =
  h_messageId :: string
  h_from :: string
  h_to :: string
  h_cc :: string
  h_subject :: string
  h_date :: date

record text_fields =
  t_text :: string
  t_html :: string

record partial_email =
  from_header :: "header_fields option"
  from_text :: "text_fields option"
  pe_isRead :: bool
  pe_folder :: string

definition on_body :: "date \<Rightarrow> raw_message \<Rightarrow> partial_email \<Rightarrow> body_event \<Rightarrow> partial_email" where
  "on_body now msg email ev =
     (if startsWith (which ev) ''HEADER'' then
        (case parsed ev of
           None \<Rightarrow> email
         | Some p \<Rightarrow>
             email\<lparr>from_header := Some
               \<lparr>h_messageId = or_else (p_messageId p) (Date_now msg @ ''-'' @ Math_random msg),
                h_from = or_else (p_from p) [],
                h_to = or_else (p_to p) [],
                h_cc = or_else (p_cc p) [],
                h_subject = or_else (p_subject p) [],
                h_date = (case p_date p of None \<Rightarrow> now | Some d \<Rightarrow> d)\<rparr>\<rparr>)
      else
        (case parsed ev of
           None \<Rightarrow> email
         | Some p \<Rightarrow>
             email\<lparr>from_text := Some
               \<lparr>t_text = or_else (p_text p) [], t_html = or_else (p_html p) []\<rparr>\<rparr>))"

text \<open>
  At the \<^verbatim>\<open>end\<close> event of a message: the message is pushed when its id, sender,
  recipient and text are all set and not empty.
\<close>

definition on_end :: "EmailData list \<Rightarrow> partial_email \<Rightarrow> EmailData list" where
  "on_end pushed email =
     (case (from_header email, from_text email) of
        (Some h, Some t) \<Rightarrow>
          if h_messageId h \<noteq> [] \<and> h_from h \<noteq> [] \<and> h_to h \<noteq> [] \<and> t_text t \<noteq> []
          then pushed @
                 [\<lparr>d_messageId = h_messageId h, d_from = h_from h, d_to = h_to h,
                   d_cc = Some (h_cc h), d_subject = Some (h_subject h),
                   d_text = t_text t, d_html = Some (t_html t), d_date = h_date h,
                   d_isRead = Some (pe_isRead email), d_folder = Some (pe_folder email)\<rparr>]
          else pushed
      | _ \<Rightarrow> pushed)"

definition on_message :: "date \<Rightarrow> string \<Rightarrow> EmailData list \<Rightarrow> raw_message \<Rightarrow> EmailData list" where
  "on_message now box_name pushed msg =
     on_end pushed
       (foldl (on_body now msg)
          \<lparr>from_header = None, from_text = None, pe_isRead = False, pe_folder = box_name\<rparr>
          (bodies msg))"

definition fetchEmails :: "world \<Rightarrow> date \<Rightarrow> string \<Rightarrow> date \<Rightarrow> exn + EmailData list" where
  "fetchEmails w now box_name since =
     (case imap_search w since of
        Inl err \<Rightarrow> Inl (Error err)
      | Inr results \<Rightarrow>
          if results = [] then Inr []
          else (case imap_fetch w results of
                  Inl err \<Rightarrow> Inl (Error err)
                | Inr msgs \<Rightarrow> Inr (foldl (on_message now box_name) [] msgs)))"

section \<open>Response generation service (server/email.ts)\<close>

definition determineIfNeedsResponse :: "world \<Rightarrow> server \<Rightarrow> string \<Rightarrow> string \<Rightarrow> server \<times> bool" where
  "determineIfNeedsResponse w srv emailBody subj =
     (let truncatedEmail =
            (if length emailBody > 5000 then take 5000 emailBody @ ''... [Email truncated]''
             else emailBody);
          srv' = srv\<lparr>needs_requests := needs_requests srv @ [(subj, truncatedEmail)]\<rparr>
      in case needs_completion w subj truncatedEmail of
           NeedsCallFailed \<Rightarrow> (srv', False)
         | NeedsNotJson \<Rightarrow> (srv', False)
         | NeedsReply needs confidence \<Rightarrow> (srv', needs \<and> confidence > 0.7))"

definition context_entry :: "Context \<Rightarrow> string" where
  "context_entry ctx =
     (let truncatedContent =
            (if length (content ctx) > 1000 then take 1000 (content ctx) @ ''... [Content truncated]''
             else content ctx)
      in ''--- '' @ c_name ctx @ '' ---'' @ [CHR 0x0A] @ truncatedContent @ [CHR 0x0A, CHR 0x0A])"

definition generateEmailResponse :: "world \<Rightarrow> date \<Rightarrow> server \<Rightarrow> nat \<Rightarrow> nat \<Rightarrow> server \<times> bool" where
  "generateEmailResponse w now srv userId emailId' =
     (case getEmail (storage srv) emailId' of
        None \<Rightarrow> (srv, False)
      | Some email \<Rightarrow>
          (let userContexts = getContexts (storage srv) userId;
               activeContexts = filter (\<lambda>ctx. truthy (c_active ctx)) userContexts;
               contextString =
                 (if length activeContexts > 0
                  then ''Using the following context information:'' @ [CHR 0x0A, CHR 0x0A]
                       @ concat (map context_entry activeContexts)
                  else [])
           in case draft_completion w contextString email of
                DraftCallFailed \<Rightarrow> (srv, False)
              | DraftNotJson \<Rightarrow> (srv, False)
              | DraftReply draft actions \<Rightarrow>
                  (let insertResponse =
                         \<lparr>r_emailId = e_id email, r_userId = userId, draftResponse = draft,
                          suggestedActions = actions, status = ''draft''\<rparr>;
                       st1 = fst (createEmailResponse (storage srv) insertResponse now);
                       st2 = fst (updateEmail st1 emailId'
                                    (\<lambda>e. e\<lparr>responseGenerated := Some True\<rparr>))
                   in (srv\<lparr>storage := st2\<rparr>, True))))"

section \<open>Email sync orchestrator (server/email.ts)\<close>

record sync_result =
  success :: bool
  count :: nat
  error :: "exn option"

definition process_email :: "world \<Rightarrow> date \<Rightarrow> nat \<Rightarrow> server \<times> nat \<Rightarrow> EmailData \<Rightarrow> server \<times> nat" where
  "process_email w now userId acc email =
     (let srv = fst acc; newEmailCount = snd acc
      in case getEmailByMessageId (storage srv) (d_messageId email) of
           Some existing \<Rightarrow> (srv, newEmailCount)
         | None \<Rightarrow>
             (let (srv1, needs) =
                    determineIfNeedsResponse w srv (d_text email) (or_else (d_subject email) []);
                  insertEmail =
                    \<lparr>e_userId = userId,
                     messageId = d_messageId email,
                     mail_from = d_from email,
                     mail_to = d_to email,
                     cc = Some (or_else (d_cc email) []),
                     subject = Some (or_else (d_subject email) []),
                     body = d_text email,
                     html = Some (or_else (d_html email) []),
                     e_date = d_date email,
                     isRead = Some (truthy (d_isRead email)),
                     needsResponse = Some needs,
                     responseGenerated = Some False,
                     folderPath = Some (or_else (d_folder email) ''INBOX'')\<rparr>;
                  (st2, savedEmail) = createEmail (storage srv1) insertEmail now;
                  srv2 = srv1\<lparr>storage := st2\<rparr>;
                  srv3 = (if truthy (needsResponse savedEmail)
                          then fst (generateEmailResponse w now srv2 userId (e_id savedEmail))
                          else srv2)
              in (srv3, newEmailCount + 1)))"

definition lastSyncDate :: "date \<Rightarrow> EmailSettings \<Rightarrow> date" where
  "lastSyncDate now settings =
     (case lastSynced settings of
        Some d \<Rightarrow> d
      | None \<Rightarrow> now - 3 * 24 * 60 * 60 * 1000)"

definition syncEmails :: "world \<Rightarrow> date \<Rightarrow> server \<Rightarrow> nat \<Rightarrow> server \<times> sync_result" where
  "syncEmails w now srv userId =
     (case getEmailSettings (storage srv) userId of
        None \<Rightarrow>
          (srv, \<lparr>success = False, count = 0, error = Some (Error ''Email settings not found'')\<rparr>)
      | Some settings \<Rightarrow>
          if \<not> truthy (s_active settings) then
            (srv, \<lparr>success = False, count = 0,
                   error = Some (Error ''Email integration is not active'')\<rparr>)
          else
            (case createImapConnection w settings of
               Inl e \<Rightarrow> (srv, \<lparr>success = False, count = 0, error = Some e\<rparr>)
             | Inr imap \<Rightarrow>
                 (case openMailbox w ''INBOX'' of
                    Inl e \<Rightarrow> (srv, \<lparr>success = False, count = 0, error = Some e\<rparr>)
                  | Inr inbox \<Rightarrow>
                      (case fetchEmails w now inbox (lastSyncDate now settings) of
                         Inl e \<Rightarrow> (srv, \<lparr>success = False, count = 0, error = Some e\<rparr>)
                       | Inr fetchedEmails \<Rightarrow>
                           (let (srv1, newEmailCount) =
                                  foldl (process_email w now userId) (srv, 0) fetchedEmails;
                                st2 = fst (updateEmailSettings (storage srv1) userId
                                             (\<lambda>s. s\<lparr>lastSynced := Some now\<rparr>) now)
                            in (srv1\<lparr>storage := st2\<rparr>,
                                \<lparr>success = True, count = newEmailCount, error = None\<rparr>))))))"

section \<open>Sending a reply (server/email.ts)\<close>

text \<open>
  The two patterns of \<open>sendEmail\<close> are sequences of three kinds of items: a character,
  one or more characters of a class (the one group of the pattern, whose text is
  captured), and the end of the input. \<open>match_here\<close> matches a pattern at the start of
  a string, the repetition taking as many characters as it can and giving them back one
  by one; \<open>search\<close> tries each position from the left, as \<^verbatim>\<open>String.prototype.match\<close>
  does, and returns the text of the group.
\<close>

datatype re_item =
    Lit char
  | PlusGroup "char \<Rightarrow> bool"
  | EndOfInput

fun first_success :: "(nat \<Rightarrow> 'a option) \<Rightarrow> nat \<Rightarrow> 'a option" where
  "first_success f 0 = None"
| "first_success f (Suc k) =
     (case f (Suc k) of
        Some r \<Rightarrow> Some r
      | None \<Rightarrow> first_success f k)"

fun match_here :: "re_item list \<Rightarrow> string \<Rightarrow> string \<Rightarrow> string option" where
  "match_here [] s captured = Some captured"
| "match_here (Lit c # items) s captured =
     (case s of
        [] \<Rightarrow> None
      | x # xs \<Rightarrow> if x = c then match_here items xs captured else None)"
| "match_here (EndOfInput # items) s captured =
     (if s = [] then match_here items s captured else None)"
| "match_here (PlusGroup cls # items) s captured =
     first_success (\<lambda>k. match_here items (drop k s) (take k s)) (length (takeWhile cls s))"

fun search :: "re_item list \<Rightarrow> string \<Rightarrow> string option" where
  "search items [] = match_here items [] []"
| "search items (c # cs) =
     (case match_here items (c # cs) [] of
        Some captured \<Rightarrow> Some captured
      | None \<Rightarrow> search items cs)"

text \<open>The class \<^verbatim>\<open>\s\<close> on the characters of one byte.\<close>

definition is_space :: "char \<Rightarrow> bool" where
  "is_space c = (c \<in> {CHR 0x09, CHR 0x0A, CHR 0x0B, CHR 0x0C, CHR 0x0D, CHR '' ''})"

text \<open>\<^verbatim>\<open>/<([^>]+)>/\<close> and \<^verbatim>\<open>/([^<\s]+)$/\<close>\<close>

definition re_bracketed :: "re_item list" where
  "re_bracketed = [Lit CHR ''<'', PlusGroup (\<lambda>c. c \<noteq> CHR ''>''), Lit CHR ''>'']"

definition re_trailing :: "re_item list" where
  "re_trailing = [PlusGroup (\<lambda>c. c \<noteq> CHR ''<'' \<and> \<not> is_space c), EndOfInput]"

definition replyTo :: "string \<Rightarrow> string" where
  "replyTo from_field =
     (case search re_bracketed from_field of
        Some captured \<Rightarrow> captured
      | None \<Rightarrow>
          (case search re_trailing from_field of
             Some captured \<Rightarrow> captured
           | None \<Rightarrow> from_field))"

definition reply_subject :: "string option \<Rightarrow> string" where
  "reply_subject subj =
     (case subj of
        Some s \<Rightarrow> if startsWith s ''Re:'' then s else ''Re: '' @ or_else subj ''(No subject)''
      | None \<Rightarrow> ''Re: '' @ or_else subj ''(No subject)'')"

record send_result =
  sent :: bool
  send_error :: "exn option"

definition sendEmail ::
    "world \<Rightarrow> date \<Rightarrow> server \<Rightarrow> nat \<Rightarrow> nat \<Rightarrow> string option \<Rightarrow> server \<times> send_result" where
  "sendEmail w now srv userId responseId editedResponse =
     (case getEmailResponse (storage srv) responseId of
        None \<Rightarrow> (srv, \<lparr>sent = False, send_error = Some (Error ''Email response not found'')\<rparr>)
      | Some emailResponse \<Rightarrow>
     (case getEmail (storage srv) (r_emailId emailResponse) of
        None \<Rightarrow> (srv, \<lparr>sent = False, send_error = Some (Error ''Original email not found'')\<rparr>)
      | Some email \<Rightarrow>
     (case getEmailSettings (storage srv) userId of
        None \<Rightarrow> (srv, \<lparr>sent = False, send_error = Some (Error ''Email settings not found'')\<rparr>)
      | Some settings \<Rightarrow>
     (case decrypt (ENCRYPTION_KEY (process_env_ENCRYPTION_KEY w)) (credentials settings) of
        Inl e \<Rightarrow> (srv, \<lparr>sent = False, send_error = Some (CryptoError e)\<rparr>)
      | Inr plain \<Rightarrow>
     (case JSON_parse w plain of
        None \<Rightarrow> (srv, \<lparr>sent = False, send_error = Some SyntaxError\<rparr>)
      | Some creds \<Rightarrow>
          (let transportConfig =
                 \<lparr>smtp_host = smtpHost creds,
                  smtp_port = smtpPort creds,
                  smtp_secure = truthy (smtpSecure creds),
                  auth_user = or_else (username creds) (s_email settings),
                  auth_pass = password creds\<rparr>;
               messageContent = or_else editedResponse (draftResponse emailResponse);
               mail =
                 \<lparr>m_from = s_email settings,
                  m_to = replyTo (mail_from email),
                  m_subject = reply_subject (subject email),
                  m_text = messageContent,
                  m_references = messageId email,
                  m_inReplyTo = messageId email\<rparr>
           in case smtp_sendMail w transportConfig mail of
                Some err \<Rightarrow> (srv, \<lparr>sent = False, send_error = Some (Error err)\<rparr>)
              | None \<Rightarrow>
                  (let st1 = fst (updateEmailResponse (storage srv) responseId
                                    (\<lambda>r. r\<lparr>status := ''sent'', sentAt := Some now,
                                             draftResponse := messageContent\<rparr>) now)
                   in (srv\<lparr>storage := st1, outbox := outbox srv @ [mail]\<rparr>,
                       \<lparr>sent = True, send_error = None\<rparr>))))))))"

section \<open>The route that generates a response on request (server/routes.ts)\<close>

text \<open>
  \<^verbatim>\<open>POST /api/email/:id/generate-response\<close> for the authenticated user \<open>userId\<close>; the
  result is the status of the HTTP response.
\<close>

definition post_generate_response :: "world \<Rightarrow> date \<Rightarrow> server \<Rightarrow> nat \<Rightarrow> nat \<Rightarrow> server \<times> nat" where
  "post_generate_response w now srv userId emailId' =
     (case getEmail (storage srv) emailId' of
        None \<Rightarrow> (srv, 404)
      | Some email \<Rightarrow>
          if e_userId email \<noteq> userId then (srv, 403)
          else (let (srv1, ok) = generateEmailResponse w now srv userId emailId'
                in if \<not> ok then (srv1, 500)
                   else (srv1\<lparr>storage := fst (updateEmail (storage srv1) emailId'
                                               (\<lambda>e. e\<lparr>responseGenerated := Some True\<rparr>))\<rparr>,
                         200)))"
section \<open>The credential vault: AES-256 inverts itself\<close>


text \<open>The two substitution tables, entry by entry.\<close>

lemma sub_byte_table:
    "sub_byte 0x00 = 0x63" "sub_byte 0x01 = 0x7c" "sub_byte 0x02 = 0x77" "sub_byte 0x03 = 0x7b"
    "sub_byte 0x04 = 0xf2" "sub_byte 0x05 = 0x6b" "sub_byte 0x06 = 0x6f" "sub_byte 0x07 = 0xc5"
    "sub_byte 0x08 = 0x30" "sub_byte 0x09 = 0x01" "sub_byte 0x0a = 0x67" "sub_byte 0x0b = 0x2b"
    "sub_byte 0x0c = 0xfe" "sub_byte 0x0d = 0xd7" "sub_byte 0x0e = 0xab" "sub_byte 0x0f = 0x76"
    "sub_byte 0x10 = 0xca" "sub_byte 0x11 = 0x82" "sub_byte 0x12 = 0xc9" "sub_byte 0x13 = 0x7d"
    "sub_byte 0x14 = 0xfa" "sub_byte 0x15 = 0x59" "sub_byte 0x16 = 0x47" "sub_byte 0x17 = 0xf0"
    "sub_byte 0x18 = 0xad" "sub_byte 0x19 = 0xd4" "sub_byte 0x1a = 0xa2" "sub_byte 0x1b = 0xaf"
    "sub_byte 0x1c = 0x9c" "sub_byte 0x1d = 0xa4" "sub_byte 0x1e = 0x72" "sub_byte 0x1f = 0xc0"
    "sub_byte 0x20 = 0xb7" "sub_byte 0x21 = 0xfd" "sub_byte 0x22 = 0x93" "sub_byte 0x23 = 0x26"
    "sub_byte 0x24 = 0x36" "sub_byte 0x25 = 0x3f" "sub_byte 0x26 = 0xf7" "sub_byte 0x27 = 0xcc"
    "sub_byte 0x28 = 0x34" "sub_byte 0x29 = 0xa5" "sub_byte 0x2a = 0xe5" "sub_byte 0x2b = 0xf1"
    "sub_byte 0x2c = 0x71" "sub_byte 0x2d = 0xd8" "sub_byte 0x2e = 0x31" "sub_byte 0x2f = 0x15"
    "sub_byte 0x30 = 0x04" "sub_byte 0x31 = 0xc7" "sub_byte 0x32 = 0x23" "sub_byte 0x33 = 0xc3"
    "sub_byte 0x34 = 0x18" "sub_byte 0x35 = 0x96" "sub_byte 0x36 = 0x05" "sub_byte 0x37 = 0x9a"
    "sub_byte 0x38 = 0x07" "sub_byte 0x39 = 0x12" "sub_byte 0x3a = 0x80" "sub_byte 0x3b = 0xe2"
    "sub_byte 0x3c = 0xeb" "sub_byte 0x3d = 0x27" "sub_byte 0x3e = 0xb2" "sub_byte 0x3f = 0x75"
    "sub_byte 0x40 = 0x09" "sub_byte 0x41 = 0x83" "sub_byte 0x42 = 0x2c" "sub_byte 0x43 = 0x1a"
    "sub_byte 0x44 = 0x1b" "sub_byte 0x45 = 0x6e" "sub_byte 0x46 = 0x5a" "sub_byte 0x47 = 0xa0"
    "sub_byte 0x48 = 0x52" "sub_byte 0x49 = 0x3b" "sub_byte 0x4a = 0xd6" "sub_byte 0x4b = 0xb3"
    "sub_byte 0x4c = 0x29" "sub_byte 0x4d = 0xe3" "sub_byte 0x4e = 0x2f" "sub_byte 0x4f = 0x84"
    "sub_byte 0x50 = 0x53" "sub_byte 0x51 = 0xd1" "sub_byte 0x52 = 0x00" "sub_byte 0x53 = 0xed"
    "sub_byte 0x54 = 0x20" "sub_byte 0x55 = 0xfc" "sub_byte 0x56 = 0xb1" "sub_byte 0x57 = 0x5b"
    "sub_byte 0x58 = 0x6a" "sub_byte 0x59 = 0xcb" "sub_byte 0x5a = 0xbe" "sub_byte 0x5b = 0x39"
    "sub_byte 0x5c = 0x4a" "sub_byte 0x5d = 0x4c" "sub_byte 0x5e = 0x58" "sub_byte 0x5f = 0xcf"
    "sub_byte 0x60 = 0xd0" "sub_byte 0x61 = 0xef" "sub_byte 0x62 = 0xaa" "sub_byte 0x63 = 0xfb"
    "sub_byte 0x64 = 0x43" "sub_byte 0x65 = 0x4d" "sub_byte 0x66 = 0x33" "sub_byte 0x67 = 0x85"
    "sub_byte 0x68 = 0x45" "sub_byte 0x69 = 0xf9" "sub_byte 0x6a = 0x02" "sub_byte 0x6b = 0x7f"
    "sub_byte 0x6c = 0x50" "sub_byte 0x6d = 0x3c" "sub_byte 0x6e = 0x9f" "sub_byte 0x6f = 0xa8"
    "sub_byte 0x70 = 0x51" "sub_byte 0x71 = 0xa3" "sub_byte 0x72 = 0x40" "sub_byte 0x73 = 0x8f"
    "sub_byte 0x74 = 0x92" "sub_byte 0x75 = 0x9d" "sub_byte 0x76 = 0x38" "sub_byte 0x77 = 0xf5"
    "sub_byte 0x78 = 0xbc" "sub_byte 0x79 = 0xb6" "sub_byte 0x7a = 0xda" "sub_byte 0x7b = 0x21"
    "sub_byte 0x7c = 0x10" "sub_byte 0x7d = 0xff" "sub_byte 0x7e = 0xf3" "sub_byte 0x7f = 0xd2"
    "sub_byte 0x80 = 0xcd" "sub_byte 0x81 = 0x0c" "sub_byte 0x82 = 0x13" "sub_byte 0x83 = 0xec"
    "sub_byte 0x84 = 0x5f" "sub_byte 0x85 = 0x97" "sub_byte 0x86 = 0x44" "sub_byte 0x87 = 0x17"
    "sub_byte 0x88 = 0xc4" "sub_byte 0x89 = 0xa7" "sub_byte 0x8a = 0x7e" "sub_byte 0x8b = 0x3d"
    "sub_byte 0x8c = 0x64" "sub_byte 0x8d = 0x5d" "sub_byte 0x8e = 0x19" "sub_byte 0x8f = 0x73"
    "sub_byte 0x90 = 0x60" "sub_byte 0x91 = 0x81" "sub_byte 0x92 = 0x4f" "sub_byte 0x93 = 0xdc"
    "sub_byte 0x94 = 0x22" "sub_byte 0x95 = 0x2a" "sub_byte 0x96 = 0x90" "sub_byte 0x97 = 0x88"
    "sub_byte 0x98 = 0x46" "sub_byte 0x99 = 0xee" "sub_byte 0x9a = 0xb8" "sub_byte 0x9b = 0x14"
    "sub_byte 0x9c = 0xde" "sub_byte 0x9d = 0x5e" "sub_byte 0x9e = 0x0b" "sub_byte 0x9f = 0xdb"
    "sub_byte 0xa0 = 0xe0" "sub_byte 0xa1 = 0x32" "sub_byte 0xa2 = 0x3a" "sub_byte 0xa3 = 0x0a"
    "sub_byte 0xa4 = 0x49" "sub_byte 0xa5 = 0x06" "sub_byte 0xa6 = 0x24" "sub_byte 0xa7 = 0x5c"
    "sub_byte 0xa8 = 0xc2" "sub_byte 0xa9 = 0xd3" "sub_byte 0xaa = 0xac" "sub_byte 0xab = 0x62"
    "sub_byte 0xac = 0x91" "sub_byte 0xad = 0x95" "sub_byte 0xae = 0xe4" "sub_byte 0xaf = 0x79"
    "sub_byte 0xb0 = 0xe7" "sub_byte 0xb1 = 0xc8" "sub_byte 0xb2 = 0x37" "sub_byte 0xb3 = 0x6d"
    "sub_byte 0xb4 = 0x8d" "sub_byte 0xb5 = 0xd5" "sub_byte 0xb6 = 0x4e" "sub_byte 0xb7 = 0xa9"
    "sub_byte 0xb8 = 0x6c" "sub_byte 0xb9 = 0x56" "sub_byte 0xba = 0xf4" "sub_byte 0xbb = 0xea"
    "sub_byte 0xbc = 0x65" "sub_byte 0xbd = 0x7a" "sub_byte 0xbe = 0xae" "sub_byte 0xbf = 0x08"
    "sub_byte 0xc0 = 0xba" "sub_byte 0xc1 = 0x78" "sub_byte 0xc2 = 0x25" "sub_byte 0xc3 = 0x2e"
    "sub_byte 0xc4 = 0x1c" "sub_byte 0xc5 = 0xa6" "sub_byte 0xc6 = 0xb4" "sub_byte 0xc7 = 0xc6"
    "sub_byte 0xc8 = 0xe8" "sub_byte 0xc9 = 0xdd" "sub_byte 0xca = 0x74" "sub_byte 0xcb = 0x1f"
    "sub_byte 0xcc = 0x4b" "sub_byte 0xcd = 0xbd" "sub_byte 0xce = 0x8b" "sub_byte 0xcf = 0x8a"
    "sub_byte 0xd0 = 0x70" "sub_byte 0xd1 = 0x3e" "sub_byte 0xd2 = 0xb5" "sub_byte 0xd3 = 0x66"
    "sub_byte 0xd4 = 0x48" "sub_byte 0xd5 = 0x03" "sub_byte 0xd6 = 0xf6" "sub_byte 0xd7 = 0x0e"
    "sub_byte 0xd8 = 0x61" "sub_byte 0xd9 = 0x35" "sub_byte 0xda = 0x57" "sub_byte 0xdb = 0xb9"
    "sub_byte 0xdc = 0x86" "sub_byte 0xdd = 0xc1" "sub_byte 0xde = 0x1d" "sub_byte 0xdf = 0x9e"
    "sub_byte 0xe0 = 0xe1" "sub_byte 0xe1 = 0xf8" "sub_byte 0xe2 = 0x98" "sub_byte 0xe3 = 0x11"
    "sub_byte 0xe4 = 0x69" "sub_byte 0xe5 = 0xd9" "sub_byte 0xe6 = 0x8e" "sub_byte 0xe7 = 0x94"
    "sub_byte 0xe8 = 0x9b" "sub_byte 0xe9 = 0x1e" "sub_byte 0xea = 0x87" "sub_byte 0xeb = 0xe9"
    "sub_byte 0xec = 0xce" "sub_byte 0xed = 0x55" "sub_byte 0xee = 0x28" "sub_byte 0xef = 0xdf"
    "sub_byte 0xf0 = 0x8c" "sub_byte 0xf1 = 0xa1" "sub_byte 0xf2 = 0x89" "sub_byte 0xf3 = 0x0d"
    "sub_byte 0xf4 = 0xbf" "sub_byte 0xf5 = 0xe6" "sub_byte 0xf6 = 0x42" "sub_byte 0xf7 = 0x68"
    "sub_byte 0xf8 = 0x41" "sub_byte 0xf9 = 0x99" "sub_byte 0xfa = 0x2d" "sub_byte 0xfb = 0x0f"
    "sub_byte 0xfc = 0xb0" "sub_byte 0xfd = 0x54" "sub_byte 0xfe = 0xbb" "sub_byte 0xff = 0x16"
  by (simp_all add: sub_byte_def SBOX_def)

lemma inv_sub_byte_table:
    "inv_sub_byte 0x00 = 0x52" "inv_sub_byte 0x01 = 0x09" "inv_sub_byte 0x02 = 0x6a" "inv_sub_byte 0x03 = 0xd5"
    "inv_sub_byte 0x04 = 0x30" "inv_sub_byte 0x05 = 0x36" "inv_sub_byte 0x06 = 0xa5" "inv_sub_byte 0x07 = 0x38"
    "inv_sub_byte 0x08 = 0xbf" "inv_sub_byte 0x09 = 0x40" "inv_sub_byte 0x0a = 0xa3" "inv_sub_byte 0x0b = 0x9e"
    "inv_sub_byte 0x0c = 0x81" "inv_sub_byte 0x0d = 0xf3" "inv_sub_byte 0x0e = 0xd7" "inv_sub_byte 0x0f = 0xfb"
    "inv_sub_byte 0x10 = 0x7c" "inv_sub_byte 0x11 = 0xe3" "inv_sub_byte 0x12 = 0x39" "inv_sub_byte 0x13 = 0x82"
    "inv_sub_byte 0x14 = 0x9b" "inv_sub_byte 0x15 = 0x2f" "inv_sub_byte 0x16 = 0xff" "inv_sub_byte 0x17 = 0x87"
    "inv_sub_byte 0x18 = 0x34" "inv_sub_byte 0x19 = 0x8e" "inv_sub_byte 0x1a = 0x43" "inv_sub_byte 0x1b = 0x44"
    "inv_sub_byte 0x1c = 0xc4" "inv_sub_byte 0x1d = 0xde" "inv_sub_byte 0x1e = 0xe9" "inv_sub_byte 0x1f = 0xcb"
    "inv_sub_byte 0x20 = 0x54" "inv_sub_byte 0x21 = 0x7b" "inv_sub_byte 0x22 = 0x94" "inv_sub_byte 0x23 = 0x32"
    "inv_sub_byte 0x24 = 0xa6" "inv_sub_byte 0x25 = 0xc2" "inv_sub_byte 0x26 = 0x23" "inv_sub_byte 0x27 = 0x3d"
    "inv_sub_byte 0x28 = 0xee" "inv_sub_byte 0x29 = 0x4c" "inv_sub_byte 0x2a = 0x95" "inv_sub_byte 0x2b = 0x0b"
    "inv_sub_byte 0x2c = 0x42" "inv_sub_byte 0x2d = 0xfa" "inv_sub_byte 0x2e = 0xc3" "inv_sub_byte 0x2f = 0x4e"
    "inv_sub_byte 0x30 = 0x08" "inv_sub_byte 0x31 = 0x2e" "inv_sub_byte 0x32 = 0xa1" "inv_sub_byte 0x33 = 0x66"
    "inv_sub_byte 0x34 = 0x28" "inv_sub_byte 0x35 = 0xd9" "inv_sub_byte 0x36 = 0x24" "inv_sub_byte 0x37 = 0xb2"
    "inv_sub_byte 0x38 = 0x76" "inv_sub_byte 0x39 = 0x5b" "inv_sub_byte 0x3a = 0xa2" "inv_sub_byte 0x3b = 0x49"
    "inv_sub_byte 0x3c = 0x6d" "inv_sub_byte 0x3d = 0x8b" "inv_sub_byte 0x3e = 0xd1" "inv_sub_byte 0x3f = 0x25"
    "inv_sub_byte 0x40 = 0x72" "inv_sub_byte 0x41 = 0xf8" "inv_sub_byte 0x42 = 0xf6" "inv_sub_byte 0x43 = 0x64"
    "inv_sub_byte 0x44 = 0x86" "inv_sub_byte 0x45 = 0x68" "inv_sub_byte 0x46 = 0x98" "inv_sub_byte 0x47 = 0x16"
    "inv_sub_byte 0x48 = 0xd4" "inv_sub_byte 0x49 = 0xa4" "inv_sub_byte 0x4a = 0x5c" "inv_sub_byte 0x4b = 0xcc"
    "inv_sub_byte 0x4c = 0x5d" "inv_sub_byte 0x4d = 0x65" "inv_sub_byte 0x4e = 0xb6" "inv_sub_byte 0x4f = 0x92"
    "inv_sub_byte 0x50 = 0x6c" "inv_sub_byte 0x51 = 0x70" "inv_sub_byte 0x52 = 0x48" "inv_sub_byte 0x53 = 0x50"
    "inv_sub_byte 0x54 = 0xfd" "inv_sub_byte 0x55 = 0xed" "inv_sub_byte 0x56 = 0xb9" "inv_sub_byte 0x57 = 0xda"
    "inv_sub_byte 0x58 = 0x5e" "inv_sub_byte 0x59 = 0x15" "inv_sub_byte 0x5a = 0x46" "inv_sub_byte 0x5b = 0x57"
    "inv_sub_byte 0x5c = 0xa7" "inv_sub_byte 0x5d = 0x8d" "inv_sub_byte 0x5e = 0x9d" "inv_sub_byte 0x5f = 0x84"
    "inv_sub_byte 0x60 = 0x90" "inv_sub_byte 0x61 = 0xd8" "inv_sub_byte 0x62 = 0xab" "inv_sub_byte 0x63 = 0x00"
    "inv_sub_byte 0x64 = 0x8c" "inv_sub_byte 0x65 = 0xbc" "inv_sub_byte 0x66 = 0xd3" "inv_sub_byte 0x67 = 0x0a"
    "inv_sub_byte 0x68 = 0xf7" "inv_sub_byte 0x69 = 0xe4" "inv_sub_byte 0x6a = 0x58" "inv_sub_byte 0x6b = 0x05"
    "inv_sub_byte 0x6c = 0xb8" "inv_sub_byte 0x6d = 0xb3" "inv_sub_byte 0x6e = 0x45" "inv_sub_byte 0x6f = 0x06"
    "inv_sub_byte 0x70 = 0xd0" "inv_sub_byte 0x71 = 0x2c" "inv_sub_byte 0x72 = 0x1e" "inv_sub_byte 0x73 = 0x8f"
    "inv_sub_byte 0x74 = 0xca" "inv_sub_byte 0x75 = 0x3f" "inv_sub_byte 0x76 = 0x0f" "inv_sub_byte 0x77 = 0x02"
    "inv_sub_byte 0x78 = 0xc1" "inv_sub_byte 0x79 = 0xaf" "inv_sub_byte 0x7a = 0xbd" "inv_sub_byte 0x7b = 0x03"
    "inv_sub_byte 0x7c = 0x01" "inv_sub_byte 0x7d = 0x13" "inv_sub_byte 0x7e = 0x8a" "inv_sub_byte 0x7f = 0x6b"
    "inv_sub_byte 0x80 = 0x3a" "inv_sub_byte 0x81 = 0x91" "inv_sub_byte 0x82 = 0x11" "inv_sub_byte 0x83 = 0x41"
    "inv_sub_byte 0x84 = 0x4f" "inv_sub_byte 0x85 = 0x67" "inv_sub_byte 0x86 = 0xdc" "inv_sub_byte 0x87 = 0xea"
    "inv_sub_byte 0x88 = 0x97" "inv_sub_byte 0x89 = 0xf2" "inv_sub_byte 0x8a = 0xcf" "inv_sub_byte 0x8b = 0xce"
    "inv_sub_byte 0x8c = 0xf0" "inv_sub_byte 0x8d = 0xb4" "inv_sub_byte 0x8e = 0xe6" "inv_sub_byte 0x8f = 0x73"
    "inv_sub_byte 0x90 = 0x96" "inv_sub_byte 0x91 = 0xac" "inv_sub_byte 0x92 = 0x74" "inv_sub_byte 0x93 = 0x22"
    "inv_sub_byte 0x94 = 0xe7" "inv_sub_byte 0x95 = 0xad" "inv_sub_byte 0x96 = 0x35" "inv_sub_byte 0x97 = 0x85"
    "inv_sub_byte 0x98 = 0xe2" "inv_sub_byte 0x99 = 0xf9" "inv_sub_byte 0x9a = 0x37" "inv_sub_byte 0x9b = 0xe8"
    "inv_sub_byte 0x9c = 0x1c" "inv_sub_byte 0x9d = 0x75" "inv_sub_byte 0x9e = 0xdf" "inv_sub_byte 0x9f = 0x6e"
    "inv_sub_byte 0xa0 = 0x47" "inv_sub_byte 0xa1 = 0xf1" "inv_sub_byte 0xa2 = 0x1a" "inv_sub_byte 0xa3 = 0x71"
    "inv_sub_byte 0xa4 = 0x1d" "inv_sub_byte 0xa5 = 0x29" "inv_sub_byte 0xa6 = 0xc5" "inv_sub_byte 0xa7 = 0x89"
    "inv_sub_byte 0xa8 = 0x6f" "inv_sub_byte 0xa9 = 0xb7" "inv_sub_byte 0xaa = 0x62" "inv_sub_byte 0xab = 0x0e"
    "inv_sub_byte 0xac = 0xaa" "inv_sub_byte 0xad = 0x18" "inv_sub_byte 0xae = 0xbe" "inv_sub_byte 0xaf = 0x1b"
    "inv_sub_byte 0xb0 = 0xfc" "inv_sub_byte 0xb1 = 0x56" "inv_sub_byte 0xb2 = 0x3e" "inv_sub_byte 0xb3 = 0x4b"
    "inv_sub_byte 0xb4 = 0xc6" "inv_sub_byte 0xb5 = 0xd2" "inv_sub_byte 0xb6 = 0x79" "inv_sub_byte 0xb7 = 0x20"
    "inv_sub_byte 0xb8 = 0x9a" "inv_sub_byte 0xb9 = 0xdb" "inv_sub_byte 0xba = 0xc0" "inv_sub_byte 0xbb = 0xfe"
    "inv_sub_byte 0xbc = 0x78" "inv_sub_byte 0xbd = 0xcd" "inv_sub_byte 0xbe = 0x5a" "inv_sub_byte 0xbf = 0xf4"
    "inv_sub_byte 0xc0 = 0x1f" "inv_sub_byte 0xc1 = 0xdd" "inv_sub_byte 0xc2 = 0xa8" "inv_sub_byte 0xc3 = 0x33"
    "inv_sub_byte 0xc4 = 0x88" "inv_sub_byte 0xc5 = 0x07" "inv_sub_byte 0xc6 = 0xc7" "inv_sub_byte 0xc7 = 0x31"
    "inv_sub_byte 0xc8 = 0xb1" "inv_sub_byte 0xc9 = 0x12" "inv_sub_byte 0xca = 0x10" "inv_sub_byte 0xcb = 0x59"
    "inv_sub_byte 0xcc = 0x27" "inv_sub_byte 0xcd = 0x80" "inv_sub_byte 0xce = 0xec" "inv_sub_byte 0xcf = 0x5f"
    "inv_sub_byte 0xd0 = 0x60" "inv_sub_byte 0xd1 = 0x51" "inv_sub_byte 0xd2 = 0x7f" "inv_sub_byte 0xd3 = 0xa9"
    "inv_sub_byte 0xd4 = 0x19" "inv_sub_byte 0xd5 = 0xb5" "inv_sub_byte 0xd6 = 0x4a" "inv_sub_byte 0xd7 = 0x0d"
    "inv_sub_byte 0xd8 = 0x2d" "inv_sub_byte 0xd9 = 0xe5" "inv_sub_byte 0xda = 0x7a" "inv_sub_byte 0xdb = 0x9f"
    "inv_sub_byte 0xdc = 0x93" "inv_sub_byte 0xdd = 0xc9" "inv_sub_byte 0xde = 0x9c" "inv_sub_byte 0xdf = 0xef"
    "inv_sub_byte 0xe0 = 0xa0" "inv_sub_byte 0xe1 = 0xe0" "inv_sub_byte 0xe2 = 0x3b" "inv_sub_byte 0xe3 = 0x4d"
    "inv_sub_byte 0xe4 = 0xae" "inv_sub_byte 0xe5 = 0x2a" "inv_sub_byte 0xe6 = 0xf5" "inv_sub_byte 0xe7 = 0xb0"
    "inv_sub_byte 0xe8 = 0xc8" "inv_sub_byte 0xe9 = 0xeb" "inv_sub_byte 0xea = 0xbb" "inv_sub_byte 0xeb = 0x3c"
    "inv_sub_byte 0xec = 0x83" "inv_sub_byte 0xed = 0x53" "inv_sub_byte 0xee = 0x99" "inv_sub_byte 0xef = 0x61"
    "inv_sub_byte 0xf0 = 0x17" "inv_sub_byte 0xf1 = 0x2b" "inv_sub_byte 0xf2 = 0x04" "inv_sub_byte 0xf3 = 0x7e"
    "inv_sub_byte 0xf4 = 0xba" "inv_sub_byte 0xf5 = 0x77" "inv_sub_byte 0xf6 = 0xd6" "inv_sub_byte 0xf7 = 0x26"
    "inv_sub_byte 0xf8 = 0xe1" "inv_sub_byte 0xf9 = 0x69" "inv_sub_byte 0xfa = 0x14" "inv_sub_byte 0xfb = 0x63"
    "inv_sub_byte 0xfc = 0x55" "inv_sub_byte 0xfd = 0x21" "inv_sub_byte 0xfe = 0x0c" "inv_sub_byte 0xff = 0x7d"
  by (simp_all add: inv_sub_byte_def INV_SBOX_def)





















lemma length_inv_sub_bytes: "length (inv_sub_bytes s) = length s"
  by (simp add: inv_sub_bytes_def)

lemma length_inv_shift_rows: "length (inv_shift_rows s) = 16"
  by (simp add: inv_shift_rows_def)


















section \<open>The credential vault: encodings, padding and chaining\<close>


lemma length_Buffer_from: "length (Buffer_from s) = length s"
  by (simp add: Buffer_from_def)

















section \<open>The credential vault: errors and undetected changes\<close>

lemma decrypt_InvalidIV:
  "length (Buffer_from_hex (hd (split CHR '':'' text))) \<noteq> 16 \<Longrightarrow> decrypt KEY text = Inl InvalidIV"
  by (simp add: decrypt_def createCipheriv_def Let_def block_size_def)

lemma decrypt_InvalidKeyLength:
  "length (Buffer_from_hex (hd (split CHR '':'' text))) = 16 \<Longrightarrow> length KEY \<noteq> 32 \<Longrightarrow>
     decrypt KEY text = Inl InvalidKeyLength"
  by (simp add: decrypt_def createCipheriv_def Let_def block_size_def key_length_def
      length_Buffer_from)

lemma encrypt_InvalidKeyLength:
  "length iv = 16 \<Longrightarrow> length KEY \<noteq> 32 \<Longrightarrow> encrypt KEY iv x = Inl InvalidKeyLength"
  by (simp add: encrypt_def createCipheriv_def block_size_def key_length_def length_Buffer_from)








section \<open>The credential vault: evaluation on concrete inputs\<close>




lemmas aes_eval = sub_byte_table inv_sub_byte_table sub_bytes_def inv_sub_bytes_def shift_rows_def
  inv_shift_rows_def xtime_def mul3_def mul9_def mul11_def mul13_def mul14_def mix_columns_def
  inv_mix_columns_def xor_bytes_def add_round_key_def rot_word_def key_expansion_def aes_round_def
  inv_aes_round_def aes_cipher_def aes_inv_cipher_def encrypt_block_def decrypt_block_def Let_def


text \<open>
  The cipher on the test vector of FIPS 197, Appendix C.3.
\<close>

lemma fips197_c3_encrypt:
  "encrypt_block
     [0x00, 0x01, 0x02, 0x03, 0x04, 0x05, 0x06, 0x07, 0x08, 0x09, 0x0a, 0x0b, 0x0c, 0x0d, 0x0e, 0x0f,
      0x10, 0x11, 0x12, 0x13, 0x14, 0x15, 0x16, 0x17, 0x18, 0x19, 0x1a, 0x1b, 0x1c, 0x1d, 0x1e, 0x1f]
     [0x00, 0x11, 0x22, 0x33, 0x44, 0x55, 0x66, 0x77, 0x88, 0x99, 0xaa, 0xbb, 0xcc, 0xdd, 0xee, 0xff]
   = [0x8e, 0xa2, 0xb7, 0xca, 0x51, 0x67, 0x45, 0xbf, 0xea, 0xfc, 0x49, 0x90, 0x4b, 0x49, 0x60, 0x89]"
  by (simp add: aes_eval)







section \<open>The credential vault: claims\<close>






text \<open>
  Claim C10, as stated: with a key that is not 32 bytes long every call of \<open>encrypt\<close>
  and of \<open>decrypt\<close> raises the invalid-key-length error. It fails for \<open>decrypt\<close> on a
  text whose vector part is not 16 bytes: the length of the vector is checked first.
\<close>

theorem C10_counterexample:
  "decrypt (ENCRYPTION_KEY None) ''0001:57a5'' = Inl InvalidIV"
  by (simp add: decrypt_def createCipheriv_def Let_def block_size_def unhex_def)

text \<open>
  Claim C10, amended. The cipher takes a key of exactly 32 bytes. With a key of any other
  length every \<open>encrypt\<close> call raises the invalid-key-length error, and every \<open>decrypt\<close>
  call raises an error: invalid key length when the text before the first colon decodes
  to 16 bytes, invalid vector otherwise. The built-in default key, used when the
  environment variable is unset, has 43 bytes, so under it no call succeeds.
\<close>

theorem C10_invalid_key_length:
  assumes "length KEY \<noteq> 32" and "length iv = IV_LENGTH"
  shows "encrypt KEY iv x = Inl InvalidKeyLength
         \<and> decrypt KEY text
             = Inl (if length (Buffer_from_hex (hd (split CHR '':'' text))) = 16
                    then InvalidKeyLength else InvalidIV)
         \<and> ENCRYPTION_KEY None = default_key
         \<and> length default_key = 43"
proof -
  have i: "length iv = 16"
    using assms(2) by (simp add: IV_LENGTH_def)
  show ?thesis
    using encrypt_InvalidKeyLength [OF i assms(1)]
      decrypt_InvalidKeyLength [OF _ assms(1), of "text"] decrypt_InvalidIV [of "text" KEY]
    by (simp add: ENCRYPTION_KEY_def default_key_def)
qed

theorem C10_invalid_key_length_witness:
  \<open>length (ENCRYPTION_KEY None) \<noteq> 32
   \<and> length [0, 1, 2, 3, 4, 5, 6, 7, 8, 9, 10, 11, 12, 13, 14, 15 :: byte] = IV_LENGTH
   \<and> encrypt (ENCRYPTION_KEY None) [0, 1, 2, 3, 4, 5, 6, 7, 8, 9, 10, 11, 12, 13, 14, 15 :: byte] ''{"password":"pw1"}''
      = Inl InvalidKeyLength
   \<and> decrypt (ENCRYPTION_KEY None)
        ''000102030405060708090a0b0c0d0e0f:57a5c53f1b137608264daad24490dd5a9e63687531f5276cdeb5b32d79d6705d''
      = Inl InvalidKeyLength\<close>
proof -
  have k: "length (ENCRYPTION_KEY None) \<noteq> 32"
    by (simp add: ENCRYPTION_KEY_def default_key_def)
  have i: "length [0, 1, 2, 3, 4, 5, 6, 7, 8, 9, 10, 11, 12, 13, 14, 15 :: byte] = IV_LENGTH"
    by (simp add: IV_LENGTH_def)
  have t: "length (Buffer_from_hex (hd (split CHR '':''
      ''000102030405060708090a0b0c0d0e0f:57a5c53f1b137608264daad24490dd5a9e63687531f5276cdeb5b32d79d6705d'')))
     = 16"
    by (simp add: unhex_def)
  have "encrypt (ENCRYPTION_KEY None) [0, 1, 2, 3, 4, 5, 6, 7, 8, 9, 10, 11, 12, 13, 14, 15 :: byte]
          ''{\"password\":\"pw1\"}'' = Inl InvalidKeyLength
      \<and> decrypt (ENCRYPTION_KEY None)
          ''000102030405060708090a0b0c0d0e0f:57a5c53f1b137608264daad24490dd5a9e63687531f5276cdeb5b32d79d6705d''
        = Inl (if length (Buffer_from_hex (hd (split CHR '':''
                 ''000102030405060708090a0b0c0d0e0f:57a5c53f1b137608264daad24490dd5a9e63687531f5276cdeb5b32d79d6705d''))) = 16
               then InvalidKeyLength else InvalidIV)"
    using C10_invalid_key_length [OF k i] by blast
  then show ?thesis
    using k i unfolding t by simp
qed

end
